theory Spec2Isabelle
  imports Main
begin

section \<open>Python strings\<close>

text \<open>
  The server works on Python \<open>str\<close> values. A character of the model is one code point
  below 256; file contents and data blocks are byte strings, written as strings too.
  The helpers below are the \<open>str\<close> methods and operators the server calls, named after
  them.
\<close>

definition is_space :: "char \<Rightarrow> bool" where
  \<comment> \<open>\<open>str.isspace\<close> and the regular expression class \<open>\s\<close>, for code points below 256\<close>
  "is_space c = (c \<in> set [CHR 0x09, CHR 0x0A, CHR 0x0B, CHR 0x0C, CHR 0x0D,
                            CHR 0x1C, CHR 0x1D, CHR 0x1E, CHR 0x1F, CHR 0x20,
                            CHR 0x85, CHR 0xA0])"

definition is_upper :: "char \<Rightarrow> bool" where
  \<comment> \<open>the regular expression class \<open>[A-Z]\<close>\<close>
  "is_upper c = (c \<in> set ''ABCDEFGHIJKLMNOPQRSTUVWXYZ'')"

definition strip :: "string \<Rightarrow> string" where
  \<comment> \<open>\<open>s.strip()\<close>\<close>
  "strip s = rev (dropWhile is_space (rev (dropWhile is_space s)))"

definition startswith :: "string \<Rightarrow> string \<Rightarrow> bool" where
  \<comment> \<open>\<open>s.startswith(p)\<close>\<close>
  "startswith s p = (take (length p) s = p)"

definition endswith :: "string \<Rightarrow> string \<Rightarrow> bool" where
  \<comment> \<open>\<open>s.endswith(p)\<close>\<close>
  "endswith s p = (length p \<le> length s \<and> drop (length s - length p) s = p)"

definition removeprefix :: "string \<Rightarrow> string \<Rightarrow> string" where
  \<comment> \<open>\<open>s.removeprefix(p)\<close>\<close>
  "removeprefix s p = (if startswith s p then drop (length p) s else s)"

fun str_in :: "string \<Rightarrow> string \<Rightarrow> bool" where
  \<comment> \<open>\<open>p in s\<close> on strings: \<open>p\<close> occurs in \<open>s\<close> as a substring\<close>
  "str_in p [] = (p = [])"
| "str_in p (c # cs) = (startswith (c # cs) p \<or> str_in p cs)"

fun split_on :: "char \<Rightarrow> string \<Rightarrow> string list" where
  \<comment> \<open>\<open>s.split(sep)\<close> for a separator of one character\<close>
  "split_on sep [] = [[]]"
| "split_on sep (c # cs) =
     (if c = sep then [] # split_on sep cs
      else (case split_on sep cs of
              [] \<Rightarrow> [[c]]
            | w # ws \<Rightarrow> (c # w) # ws))"

fun str_join :: "string \<Rightarrow> string list \<Rightarrow> string" where
  \<comment> \<open>\<open>sep.join(xs)\<close>\<close>
  "str_join sep [] = []"
| "str_join sep [x] = x"
| "str_join sep (x # y # ys) = x @ sep @ str_join sep (y # ys)"

subsection \<open>\<open>int(s)\<close>\<close>

definition is_digit :: "char \<Rightarrow> bool" where
  "is_digit c = (c \<in> set ''0123456789'')"

definition digit_val :: "char \<Rightarrow> int" where
  "digit_val c = int (of_char c) - 48"

definition valid_digits :: "string \<Rightarrow> bool" where
  \<comment> \<open>digits, with single underscores allowed between two digits\<close>
  "valid_digits ds =
     (ds \<noteq> [] \<and> is_digit (hd ds) \<and> is_digit (last ds)
      \<and> list_all (\<lambda>c. is_digit c \<or> c = CHR ''_'') ds
      \<and> list_all (\<lambda>(a, b). \<not> (a = CHR ''_'' \<and> b = CHR ''_'')) (zip ds (tl ds)))"

definition digits_value :: "string \<Rightarrow> int" where
  "digits_value ds = foldl (\<lambda>n c. 10 * n + digit_val c) 0 (filter is_digit ds)"

definition is_int_space :: "char \<Rightarrow> bool" where
  \<comment> \<open>what \<open>int\<close> skips at both ends, for code points below 256: the whitespace of
      ASCII as C has it (U+001C to U+001F are not part of it), and U+0085 and U+00A0,
      which \<open>int\<close> turns into spaces before it reads the number\<close>
  "is_int_space c = (c \<in> set [CHR 0x09, CHR 0x0A, CHR 0x0B, CHR 0x0C, CHR 0x0D, CHR 0x20,
                                CHR 0x85, CHR 0xA0])"

definition py_int :: "string \<Rightarrow> int option" where
  \<comment> \<open>\<open>int(s)\<close> in base 10: surrounding whitespace and one sign are allowed;
      \<open>None\<close> is the \<open>ValueError\<close>\<close>
  "py_int s =
     (let t = rev (dropWhile is_int_space (rev (dropWhile is_int_space s)));
          (neg, ds) = (case t of
                         [] \<Rightarrow> (False, [])
                       | c # cs \<Rightarrow> if c = CHR ''-'' then (True, cs)
                                  else if c = CHR ''+'' then (False, cs)
                                  else (False, t))
      in if valid_digits ds
         then Some (if neg then - digits_value ds else digits_value ds)
         else None)"

section \<open>Splitting a message into command and argument\<close>

text \<open>
  \<open>re.findall('^[A-Z]{3,4}(?=\s?)|(?<=\s).+', message)\<close> lists the matches of the pattern
  from left to right. The first alternative can match at position 0 only: three or four
  upper-case letters, four when there are four (the look-ahead \<open>(?=\s?)\<close> always
  succeeds). The second alternative matches at a position whose predecessor is
  whitespace, and takes every character up to the next line feed (\<open>.\<close> matches all but
  the line feed), at least one.
\<close>

definition match_verb :: "string \<Rightarrow> string option" where
  \<comment> \<open>\<open>^[A-Z]{3,4}(?=\s?)\<close> at position 0\<close>
  "match_verb m =
     (let v = takeWhile is_upper (take 4 m)
      in if 3 \<le> length v then Some v else None)"

function findall_rest :: "char \<Rightarrow> string \<Rightarrow> string list" where
  \<comment> \<open>the matches of \<open>(?<=\s).+\<close> in the rest of the message, whose predecessor is \<open>prev\<close>\<close>
  "findall_rest prev [] = []"
| "findall_rest prev (c # cs) =
     (if is_space prev \<and> c \<noteq> CHR 0x0A
      then (c # takeWhile (\<lambda>x. x \<noteq> CHR 0x0A) cs)
             # findall_rest (last (c # takeWhile (\<lambda>x. x \<noteq> CHR 0x0A) cs))
                 (dropWhile (\<lambda>x. x \<noteq> CHR 0x0A) cs)
      else findall_rest c cs)"
  by pat_completeness auto
termination
  by (relation "measure (\<lambda>(prev, s). length s)")
     (auto simp: le_imp_less_Suc length_dropWhile_le)

definition findall_message :: "string \<Rightarrow> string list" where
  "findall_message m =
     (case match_verb m of
        Some v \<Rightarrow> v # findall_rest (last v) (drop (length v) m)
      | None \<Rightarrow> (case m of [] \<Rightarrow> [] | c # cs \<Rightarrow> findall_rest c cs))"

datatype oserror =
    FileNotFoundError | NotADirectoryError | IsADirectoryError | PermissionError
  | ConnectionRefusedError | TimeoutError | NoRouteToHost | gaierror

datatype exn = OSError oserror | IndexError | TypeError | ValueError | OverflowError

definition parse_message :: "string \<Rightarrow> exn + (string \<times> string)" where
  \<comment> \<open>lines 140 to 148: \<open>command = split_message[0]\<close> raises \<open>IndexError\<close> on an empty
      list; the same error on \<open>split_message[1]\<close> is caught and gives the empty argument\<close>
  "parse_message message =
     (case findall_message message of
        [] \<Rightarrow> Inl IndexError
      | [command] \<Rightarrow> Inr (command, [])
      | command # a # _ \<Rightarrow> Inr (command, strip a))"

section \<open>Paths\<close>

text \<open>
  \<open>os.path.join\<close> as on a POSIX system: a component that begins with the separator
  replaces what was joined before it; otherwise it is appended, after a separator
  unless the path so far is empty or ends with one.
\<close>

definition join_step :: "string \<Rightarrow> string \<Rightarrow> string" where
  "join_step path b =
     (if startswith b ''/'' then b
      else if path = [] \<or> endswith path ''/'' then path @ b
      else path @ ''/'' @ b)"

definition os_path_join :: "string \<Rightarrow> string list \<Rightarrow> string" where
  "os_path_join a ps = foldl join_step a ps"

definition resolve_path :: "string \<Rightarrow> string \<Rightarrow> string \<Rightarrow> string" where
  \<comment> \<open>the expression of lines 229, 263, 294 and 333, the same in \<open>CWD\<close>, \<open>DELE\<close>,
      \<open>RETR\<close> and \<open>STOR\<close>\<close>
  "resolve_path base cur arg =
     (if take 1 arg \<in> set [''/'', [CHR 0x5C]]
      then os_path_join base [drop 1 arg]
      else os_path_join base [drop 1 cur, arg])"

section \<open>The session, the world around it and what the session does to it\<close>

text \<open>The local variables of \<open>handle_connected_client\<close>. \<open>file_path\<close> is unbound
  (\<open>None\<close>) until a command first assigns it.\<close>

record session =
  username :: "string option"
  password :: "string option"
  client_info :: "string list option"
  data_socket :: "(string \<times> int) option"
  current_path :: string
  authenticated :: bool
  connected :: bool
  file_path :: "string option"

text \<open>What the session does on its two channels, in order. A reply is recorded as the
  message given to \<open>send_message\<close>, which appends CR LF on the wire; \<open>DataConnect\<close>
  records a call of \<open>connect\<close> on the data socket, whatever its outcome.\<close>

datatype event =
    Reply string
  | ControlClosed
  | DataConnect string int
  | DataSent string
  | DataClosed

record world =
  files :: "string \<rightharpoonup> string"
  cwd :: string
  trace :: "event list"

text \<open>
  What the operating system and the client answer. \<open>chdir_result p\<close> is the outcome of
  \<open>os.chdir(p)\<close>: the error raised, or the directory \<open>os.getcwd()\<close> reports afterwards.
  \<open>idna_fails host\<close> tells whether a host name outside ASCII cannot be encoded,
  \<open>resolve_error host\<close> is the error of resolving the name, if any, and
  \<open>connect_result host port\<close> is the error of the connection itself, if any. \<open>peer_data\<close>
  lists the blocks the client sends on the data connection before closing it.
  \<open>realpath\<close> names the file a path denotes, the key of \<open>files\<close>. Creating a socket,
  sending on a socket, receiving on the data socket and closing are taken to succeed.
\<close>

record env =
  BASE_PATH :: string
  realpath :: "string \<Rightarrow> string"
  chdir_result :: "string \<Rightarrow> oserror + string"
  idna_fails :: "string \<Rightarrow> bool"
  resolve_error :: "string \<Rightarrow> oserror option"
  connect_result :: "string \<Rightarrow> int \<Rightarrow> oserror option"
  peer_data :: "string \<Rightarrow> int \<Rightarrow> string list"
  open_error :: "string \<Rightarrow> bool \<Rightarrow> oserror option"
  remove_error :: "string \<Rightarrow> oserror option"

datatype 'a outcome = Returned 'a world | Raised exn world

definition SUPPORTED_COMMANDS :: "string list" where
  "SUPPORTED_COMMANDS =
     [''OPTS'', ''USER'', ''PASS'', ''QUIT'', ''XPWD'', ''CWD'', ''DELE'', ''PORT'', ''RETR'', ''STOR'']"

definition send_message :: "string \<Rightarrow> world \<Rightarrow> world" where
  "send_message message w = w\<lparr>trace := trace w @ [Reply message]\<rparr>"

definition close_cnx :: "world \<Rightarrow> world" where
  "close_cnx w = w\<lparr>trace := trace w @ [ControlClosed]\<rparr>"

definition isfile :: "env \<Rightarrow> world \<Rightarrow> string \<Rightarrow> bool" where
  \<comment> \<open>\<open>os.path.isfile(p)\<close>\<close>
  "isfile env w p = (files w (realpath env p) \<noteq> None)"

definition read_file :: "env \<Rightarrow> world \<Rightarrow> string \<Rightarrow> string" where
  "read_file env w p = (case files w (realpath env p) of None \<Rightarrow> [] | Some bytes \<Rightarrow> bytes)"

fun recv_all :: "string list \<Rightarrow> string" where
  \<comment> \<open>lines 356 to 365: blocks are written as they arrive, up to the first empty one;
      the end of the list is the client closing the connection\<close>
  "recv_all [] = []"
| "recv_all (d # ds) = (if d = [] then [] else d @ recv_all ds)"

definition peer_address :: "string list \<Rightarrow> exn + (string \<times> int)" where
  \<comment> \<open>lines 62 to 65: \<open>client_address\<close> and \<open>client_port\<close>\<close>
  "peer_address ci =
     (let client_address = str_join ''.'' (take 4 ci) in
      if length ci \<le> 4 then Inl IndexError
      else (case py_int (ci ! 4) of
        None \<Rightarrow> Inl ValueError
      | Some p1 \<Rightarrow>
          if length ci \<le> 5 then Inl IndexError
          else (case py_int (ci ! 5) of
            None \<Rightarrow> Inl ValueError
          | Some p2 \<Rightarrow> Inr (client_address, p1 * 256 + p2))))"

definition is_ascii :: "char \<Rightarrow> bool" where
  \<comment> \<open>a code point below 128\<close>
  "is_ascii c = (\<not> digit7 c)"

definition socket_connect :: "env \<Rightarrow> string \<Rightarrow> int \<Rightarrow> exn option" where
  \<comment> \<open>\<open>data_socket.connect((host, port))\<close>: the exception it raises, if any. The host
      name is converted first (a NUL in it, or a name outside ASCII that cannot be
      encoded, is a \<open>TypeError\<close>), then the port, which must fit a C \<open>int\<close> of 32 bits;
      then the name is resolved, the range of the port is checked and the connection is
      made\<close>
  "socket_connect env host port =
     (if CHR 0x00 \<in> set host \<or> (\<not> list_all is_ascii host \<and> idna_fails env host)
      then Some TypeError
      else if port < - 2147483648 \<or> 2147483647 < port then Some OverflowError
      else (case resolve_error env host of
              Some e \<Rightarrow> Some (OSError e)
            | None \<Rightarrow>
                if port < 0 \<or> 65535 < port then Some OverflowError
                else map_option OSError (connect_result env host port)))"

definition connect_to_client ::
  "env \<Rightarrow> string list option \<Rightarrow> world \<Rightarrow> (string \<times> int) option outcome" where
  "connect_to_client env info w =
     (case info of
        None \<Rightarrow> Raised TypeError w
      | Some ci \<Rightarrow>
          (case peer_address ci of
             Inl e \<Rightarrow> Raised e w
           | Inr (client_address, client_port) \<Rightarrow>
               let w' = w\<lparr>trace := trace w @ [DataConnect client_address client_port]\<rparr> in
               (case socket_connect env client_address client_port of
                  None \<Rightarrow> Returned (Some (client_address, client_port)) w'
                | Some e \<Rightarrow>
                    if e = OSError ConnectionRefusedError then Returned None w'
                    else Raised e w')))"

definition handle_unauthenticated :: "world \<Rightarrow> world" where
  "handle_unauthenticated w = close_cnx (send_message ''530 Not logged in.'' w)"

section \<open>The commands\<close>

definition cmd_opts :: "string \<Rightarrow> session \<Rightarrow> world \<Rightarrow> session outcome" where
  \<comment> \<open>lines 156 to 166: the 200 reply is sent in both cases\<close>
  "cmd_opts arg s w =
     (let w1 = (if \<not> startswith arg ''UTF8''
                then send_message ''504 Command not implemented for that argument.'' w
                else w)
      in Returned s (send_message ''200 OK'' w1))"

definition cmd_user :: "string \<Rightarrow> session \<Rightarrow> world \<Rightarrow> session outcome" where
  "cmd_user arg s w =
     Returned (s\<lparr>username := Some arg\<rparr>) (send_message ''331 Username OK, need password.'' w)"

definition cmd_pass :: "string \<Rightarrow> session \<Rightarrow> world \<Rightarrow> session outcome" where
  "cmd_pass arg s w =
     (if username s = Some ''guest'' \<and> arg = ''guest''
      then Returned (s\<lparr>password := Some arg, authenticated := True\<rparr>)
             (send_message ''230 Login successful.'' w)
      else Returned (s\<lparr>username := None, password := None,
                       connected := False, authenticated := False\<rparr>)
             (close_cnx (send_message ''530 Not logged in. Incorrect credentials.'' w)))"

definition cmd_quit :: "session \<Rightarrow> world \<Rightarrow> session outcome" where
  "cmd_quit s w =
     Returned (s\<lparr>connected := False, authenticated := False\<rparr>)
       (close_cnx (send_message ''221 Goodbye.'' w))"

definition cmd_xpwd :: "session \<Rightarrow> world \<Rightarrow> session outcome" where
  "cmd_xpwd s w = Returned s (send_message (''257 Current directory: '' @ current_path s) w)"

definition cwd_done :: "env \<Rightarrow> string \<Rightarrow> session \<Rightarrow> world \<Rightarrow> session outcome" where
  \<comment> \<open>lines 251 to 255\<close>
  "cwd_done env navigating_path s w =
     (let cp = (if navigating_path = BASE_PATH env then ''/''
                else removeprefix navigating_path (BASE_PATH env))
      in Returned (s\<lparr>current_path := cp\<rparr>) (send_message (''250 Changed directory: '' @ cp) w))"

definition cmd_cwd :: "env \<Rightarrow> string \<Rightarrow> session \<Rightarrow> world \<Rightarrow> session outcome" where
  "cmd_cwd env arg s w =
     (let path = resolve_path (BASE_PATH env) (current_path s) arg in
      case chdir_result env path of
        Inl e \<Rightarrow>
          if e = FileNotFoundError \<or> e = NotADirectoryError
          then Returned s (send_message (''550 '' @ arg @ '' is not a directory.'') w)
          else Raised (OSError e) w
      | Inr navigating_path \<Rightarrow>
          if \<not> str_in (BASE_PATH env) navigating_path
          then (case chdir_result env (BASE_PATH env) of
                  Inl e \<Rightarrow> Raised (OSError e) (w\<lparr>cwd := navigating_path\<rparr>)
                | Inr d \<Rightarrow> cwd_done env (BASE_PATH env) (s\<lparr>current_path := ''/''\<rparr>) (w\<lparr>cwd := d\<rparr>))
          else cwd_done env navigating_path s (w\<lparr>cwd := navigating_path\<rparr>))"

definition cmd_dele :: "env \<Rightarrow> string \<Rightarrow> session \<Rightarrow> world \<Rightarrow> session outcome" where
  "cmd_dele env arg s w =
     (let fp = resolve_path (BASE_PATH env) (current_path s) arg in
      if \<not> isfile env w fp
      then Returned (s\<lparr>file_path := Some []\<rparr>)
             (send_message (''550 '' @ arg @ '' does not exist in '' @ current_path s @ '' directory.'') w)
      else (case remove_error env fp of
              Some e \<Rightarrow> Raised (OSError e) w
            | None \<Rightarrow>
                Returned (s\<lparr>file_path := Some []\<rparr>)
                  (send_message (''250 '' @ arg @ '' deleted.'')
                     (w\<lparr>files := (files w)(realpath env fp := None)\<rparr>))))"

definition cmd_port :: "string \<Rightarrow> session \<Rightarrow> world \<Rightarrow> session outcome" where
  "cmd_port arg s w =
     Returned (s\<lparr>client_info := Some (split_on (CHR '','') arg)\<rparr>)
       (send_message ''200 Command successful.'' w)"

definition reply_425 :: string where
  "reply_425 = ''425 Can'' @ [CHR 0x27] @ ''t open data connection.''"

definition reply_150 :: string where
  "reply_150 = ''150 File status okay; about to begin transfer.''"

definition cmd_retr :: "env \<Rightarrow> string \<Rightarrow> session \<Rightarrow> world \<Rightarrow> session outcome" where
  "cmd_retr env arg s w =
     (let fp = resolve_path (BASE_PATH env) (current_path s) arg in
      if \<not> isfile env w fp
      then Returned (s\<lparr>file_path := Some []\<rparr>)
             (send_message (''550 '' @ arg @ '' does not exist in '' @ current_path s @ '' directory.'') w)
      else (case connect_to_client env (client_info s) w of
              Raised e w1 \<Rightarrow> Raised e w1
            | Returned None w1 \<Rightarrow>
                Returned (s\<lparr>file_path := Some fp, data_socket := None\<rparr>) (send_message reply_425 w1)
            | Returned (Some sock) w1 \<Rightarrow>
                let w2 = send_message reply_150 w1 in
                (case open_error env fp False of
                   Some e \<Rightarrow> Raised (OSError e) w2
                 | None \<Rightarrow>
                     let w3 = w2\<lparr>trace := trace w2 @ [DataSent (read_file env w2 fp), DataClosed]\<rparr>
                     in Returned (s\<lparr>client_info := None, data_socket := None, file_path := Some []\<rparr>)
                          (send_message (''250 Successfully transferred '' @ arg @ ''.'') w3))))"

definition cmd_stor :: "env \<Rightarrow> string \<Rightarrow> session \<Rightarrow> world \<Rightarrow> session outcome" where
  "cmd_stor env arg s w =
     (let fp = resolve_path (BASE_PATH env) (current_path s) arg in
      if isfile env w fp
      then Returned (s\<lparr>file_path := Some []\<rparr>)
             (send_message (''553 Requested action not taken. '' @ arg @ '' name already taken.'') w)
      else (case connect_to_client env (client_info s) w of
              Raised e w1 \<Rightarrow> Raised e w1
            | Returned None w1 \<Rightarrow>
                Returned (s\<lparr>file_path := Some fp, data_socket := None\<rparr>) (send_message reply_425 w1)
            | Returned (Some sock) w1 \<Rightarrow>
                let w2 = send_message reply_150 w1 in
                (case open_error env fp True of
                   Some e \<Rightarrow> Raised (OSError e) w2
                 | None \<Rightarrow>
                     let bytes = recv_all (peer_data env (fst sock) (snd sock));
                         w3 = w2\<lparr>files := (files w2)(realpath env fp \<mapsto> bytes),
                                 trace := trace w2 @ [DataClosed]\<rparr>
                     in Returned (s\<lparr>file_path := Some [], data_socket := Some sock\<rparr>)
                          (send_message (''250 Successfully transferred '' @ arg @ ''.'') w3))))"

section \<open>The command loop\<close>

text \<open>What one \<open>recv\<close> on the control channel gives: the decoded text, or the
  \<open>ConnectionResetError\<close> the loop catches.\<close>

datatype input = Recv string | RecvReset

definition dispatch :: "env \<Rightarrow> string \<Rightarrow> string \<Rightarrow> session \<Rightarrow> world \<Rightarrow> session outcome" where
  \<comment> \<open>lines 150 to 372\<close>
  "dispatch env command arg s w =
     (if command \<notin> set SUPPORTED_COMMANDS
      then Returned s (send_message ''502 Command not implemented.'' w)
      else if command = ''OPTS'' then cmd_opts arg s w
      else if command = ''USER'' then cmd_user arg s w
      else if command = ''PASS'' then cmd_pass arg s w
      else if command = ''QUIT'' then cmd_quit s w
      else if \<not> authenticated s
      then Returned (s\<lparr>connected := False\<rparr>) (handle_unauthenticated w)
      else if command = ''XPWD'' then cmd_xpwd s w
      else if command = ''CWD'' then cmd_cwd env arg s w
      else if command = ''DELE'' then cmd_dele env arg s w
      else if command = ''PORT'' then cmd_port arg s w
      else if command = ''RETR'' then cmd_retr env arg s w
      else if command = ''STOR'' then cmd_stor env arg s w
      else Returned s w)"

definition loop_body :: "env \<Rightarrow> session \<Rightarrow> world \<Rightarrow> input \<Rightarrow> session outcome" where
  \<comment> \<open>one iteration of \<open>while connected\<close>, lines 123 to 372\<close>
  "loop_body env s w i =
     (case i of
        RecvReset \<Rightarrow> Returned (s\<lparr>connected := False\<rparr>) (close_cnx w)
      | Recv text \<Rightarrow>
          let message = strip text in
          if message = [] then Returned (s\<lparr>connected := False\<rparr>) (close_cnx w)
          else (case parse_message message of
                  Inl e \<Rightarrow> Raised e w
                | Inr (command, arg) \<Rightarrow> dispatch env command arg s w))"

fun session_loop :: "env \<Rightarrow> session \<Rightarrow> world \<Rightarrow> input list \<Rightarrow> session outcome" where
  \<comment> \<open>the loop on the inputs the client sends; an exception ends it\<close>
  "session_loop env s w [] = Returned s w"
| "session_loop env s w (i # is) =
     (if \<not> connected s then Returned s w
      else (case loop_body env s w i of
              Raised e w1 \<Rightarrow> Raised e w1
            | Returned s1 w1 \<Rightarrow> session_loop env s1 w1 is))"

definition new_session :: session where
  \<comment> \<open>lines 106 to 120\<close>
  "new_session =
     \<lparr>username = None, password = None, client_info = None, data_socket = None,
      current_path = ''/'', authenticated = False, connected = True, file_path = None\<rparr>"

definition handle_connected_client :: "env \<Rightarrow> world \<Rightarrow> input list \<Rightarrow> session outcome" where
  "handle_connected_client env w inputs =
     session_loop env new_session (send_message ''220 Welcome to myFTPserver!'' w) inputs"

section \<open>An example installation\<close>

text \<open>
  A server started in \<open>/srv/ftp\<close>, holding one file, beside a directory \<open>/srv/ftp2\<close>.
  A client port of 51200 refuses the data connection, 51201 has no route, any other
  port accepts and sends two blocks.
\<close>

definition example_env :: env where
  "example_env =
     \<lparr>BASE_PATH = ''/srv/ftp'',
      realpath = (\<lambda>p. p),
      chdir_result = (\<lambda>p. if p = ''/srv/ftp/../ftp2'' then Inr ''/srv/ftp2''
                          else if p = ''/srv/ftp/pub'' then Inr ''/srv/ftp/pub''
                          else if p = ''/srv/ftp'' then Inr ''/srv/ftp''
                          else Inl FileNotFoundError),
      idna_fails = (\<lambda>host. False),
      resolve_error = (\<lambda>host. None),
      connect_result = (\<lambda>host port. if port = 51200 then Some ConnectionRefusedError
                                     else if port = 51201 then Some NoRouteToHost
                                     else None),
      peer_data = (\<lambda>host port. [''abc'', ''def'']),
      open_error = (\<lambda>p writing. None),
      remove_error = (\<lambda>p. None)\<rparr>"

definition example_world :: world where
  "example_world =
     \<lparr>files = [''/srv/ftp/existing.txt'' \<mapsto> ''data''], cwd = ''/srv/ftp'', trace = []\<rparr>"

definition logged_in :: session where
  \<comment> \<open>the session after \<open>USER guest\<close> and \<open>PASS guest\<close>\<close>
  "logged_in = new_session\<lparr>username := Some ''guest'', password := Some ''guest'',
                              authenticated := True\<rparr>"

definition after_port :: "string \<Rightarrow> session" where
  \<comment> \<open>the logged-in session after \<open>PORT 127,0,0,1,200,p2\<close>\<close>
  "after_port p2 = logged_in\<lparr>client_info := Some [''127'', ''0'', ''0'', ''1'', ''200'', p2]\<rparr>"

section \<open>Notions used to state the properties\<close>

definition within_root :: "string \<Rightarrow> string \<Rightarrow> bool" where
  \<comment> \<open>\<open>p\<close> is the server root or a descendant of it\<close>
  "within_root base p = (p = base \<or> startswith p (base @ ''/''))"

definition last_reply_code :: "world \<Rightarrow> string" where
  \<comment> \<open>the three digits of the last event, when it is a reply\<close>
  "last_reply_code w = (case rev (trace w) of Reply m # _ \<Rightarrow> take 3 m | _ \<Rightarrow> [])"

definition needs_login :: "string \<Rightarrow> bool" where
  \<comment> \<open>the commands below the test of line 216\<close>
  "needs_login command =
     (command \<in> set [''XPWD'', ''CWD'', ''DELE'', ''PORT'', ''RETR'', ''STOR''])"

definition login_fails :: "session \<Rightarrow> string \<Rightarrow> bool" where
  \<comment> \<open>the \<open>else\<close> branch of line 182\<close>
  "login_fails s arg = (\<not> (username s = Some ''guest'' \<and> arg = ''guest''))"

definition passes_file_check :: "env \<Rightarrow> session \<Rightarrow> world \<Rightarrow> string \<Rightarrow> string \<Rightarrow> bool" where
  \<comment> \<open>a transfer command that gets past lines 298 or 337\<close>
  "passes_file_check env s w command arg =
     (let fp = resolve_path (BASE_PATH env) (current_path s) arg
      in command = ''RETR'' \<and> isfile env w fp \<or> command = ''STOR'' \<and> \<not> isfile env w fp)"

definition end_of_session :: "session \<Rightarrow> input \<Rightarrow> bool" where
  \<comment> \<open>the inputs on which the loop sets \<open>connected\<close> to false\<close>
  "end_of_session s i =
     (case i of
        RecvReset \<Rightarrow> True
      | Recv msg \<Rightarrow>
          strip msg = [] \<or>
          (case parse_message (strip msg) of
             Inl e \<Rightarrow> False
           | Inr (command, arg) \<Rightarrow>
               command = ''QUIT'' \<or> command = ''PASS'' \<and> login_fails s arg
               \<or> needs_login command \<and> \<not> authenticated s))"

definition spec_end_of_session :: "session \<Rightarrow> input \<Rightarrow> bool" where
  \<comment> \<open>the specification's list of what ends a session: explicit quit, failed login,
      empty read, connection reset\<close>
  "spec_end_of_session s i =
     (case i of
        RecvReset \<Rightarrow> True
      | Recv msg \<Rightarrow>
          msg = [] \<or>
          (case parse_message (strip msg) of
             Inl e \<Rightarrow> False
           | Inr (command, arg) \<Rightarrow>
               command = ''QUIT'' \<or> command = ''PASS'' \<and> login_fails s arg))"

section \<open>Properties of the session\<close>

lemmas char_defs = is_space_def is_upper_def
lemmas parse_defs = parse_message_def findall_message_def match_verb_def strip_def char_defs
lemmas path_defs = resolve_path_def os_path_join_def join_step_def startswith_def endswith_def
lemmas example_defs = example_env_def example_world_def logged_in_def new_session_def
lemmas int_defs = py_int_def valid_digits_def digits_value_def digit_val_def is_digit_def
  is_int_space_def
lemmas connect_defs = connect_to_client_def peer_address_def socket_connect_def is_ascii_def
  int_defs
lemmas cmd_defs = cmd_opts_def cmd_user_def cmd_pass_def cmd_quit_def cmd_xpwd_def cmd_cwd_def
  cwd_done_def cmd_dele_def cmd_port_def cmd_retr_def cmd_stor_def send_message_def close_cnx_def
  handle_unauthenticated_def removeprefix_def isfile_def read_file_def reply_425_def reply_150_def
lemmas step_defs = loop_body_def dispatch_def SUPPORTED_COMMANDS_def connect_defs Let_def
lemmas all_defs = step_defs parse_defs cmd_defs int_defs path_defs example_defs after_port_def

lemma parse_message_Nil: "parse_message [] = Inl IndexError"
  by (simp add: parse_message_def findall_message_def match_verb_def)

lemma first_match_unsupported_502:
  assumes "parse_message (strip msg) = Inr (command, arg)"
      and "command \<notin> set SUPPORTED_COMMANDS"
  shows "loop_body env s w (Recv msg)
           = Returned s (w\<lparr>trace := trace w @ [Reply ''502 Command not implemented.'']\<rparr>)"
proof -
  have "strip msg \<noteq> []"
    using assms(1) by (auto simp: parse_message_Nil)
  then show ?thesis
    using assms by (simp add: loop_body_def dispatch_def send_message_def)
qed

lemma no_match_raises:
  assumes "strip msg \<noteq> []" and "findall_message (strip msg) = []"
  shows "loop_body env s w (Recv msg) = Raised IndexError w"
  using assms by (simp add: loop_body_def parse_message_def)

text \<open>
  C9. The line \<open>noop\<close> is not empty and its verb is none of the ten supported
  commands, but the pattern of line 140 finds no match in it: the first alternative
  wants three upper-case letters at the start, the second a character after whitespace.
  \<open>split_message[0]\<close> raises \<open>IndexError\<close> on line 141, before the test of the
  vocabulary. Before and after the login alike, no 502 reply is sent and the exception
  leaves the loop, so the session does not stay open.
\<close>
theorem lowercase_verb_raises:
  "handle_connected_client example_env example_world [Recv ''noop'']
     = Raised IndexError
         (example_world\<lparr>trace := [Reply ''220 Welcome to myFTPserver!'']\<rparr>)
   \<and> handle_connected_client example_env example_world
       [Recv ''USER guest'', Recv ''PASS guest'', Recv ''noop'']
     = Raised IndexError
         (example_world\<lparr>trace := [Reply ''220 Welcome to myFTPserver!'',
                                    Reply ''331 Username OK, need password.'',
                                    Reply ''230 Login successful.'']\<rparr>)"
  by (simp add: handle_connected_client_def loop_body_def dispatch_def parse_defs
      SUPPORTED_COMMANDS_def cmd_user_def cmd_pass_def send_message_def example_defs)

text \<open>
  C2. In a session that is not authenticated, a supported command other than \<open>OPTS\<close>,
  \<open>USER\<close>, \<open>PASS\<close> and \<open>QUIT\<close> is not executed: the trace gains the reply
  \<open>530 Not logged in.\<close> and the close of the control connection, and the loop is left
  (\<open>connected\<close> is false). No file, no directory and no other variable changes, and no
  data connection is attempted.
\<close>
theorem unauthenticated_command_530:
  assumes "\<not> authenticated s"
      and "parse_message (strip text) = Inr (command, arg)"
      and "command \<in> set SUPPORTED_COMMANDS"
      and "command \<notin> set [''OPTS'', ''USER'', ''PASS'', ''QUIT'']"
  shows "loop_body env s w (Recv text)
           = Returned (s\<lparr>connected := False\<rparr>)
               (w\<lparr>trace := trace w @ [Reply ''530 Not logged in.'', ControlClosed]\<rparr>)"
proof -
  have "strip text \<noteq> []"
    using assms(2) by (auto simp: parse_message_Nil)
  then show ?thesis
    using assms
    by (simp add: loop_body_def dispatch_def handle_unauthenticated_def send_message_def
        close_cnx_def)
qed

theorem unauthenticated_command_530_witness:
  "\<not> authenticated new_session
   \<and> parse_message (strip ''DELE existing.txt'') = Inr (''DELE'', ''existing.txt'')
   \<and> ''DELE'' \<in> set SUPPORTED_COMMANDS
   \<and> ''DELE'' \<notin> set [''OPTS'', ''USER'', ''PASS'', ''QUIT'']
   \<and> loop_body example_env new_session example_world (Recv ''DELE existing.txt'')
       = Returned (new_session\<lparr>connected := False\<rparr>)
           (example_world\<lparr>trace := [Reply ''530 Not logged in.'', ControlClosed]\<rparr>)"
proof -
  have a: "\<not> authenticated new_session"
    by (simp add: new_session_def)
  have p: "parse_message (strip ''DELE existing.txt'') = Inr (''DELE'', ''existing.txt'')"
    by (simp add: parse_defs)
  have m: "''DELE'' \<in> set SUPPORTED_COMMANDS"
    by (simp add: SUPPORTED_COMMANDS_def)
  have n: "''DELE'' \<notin> set [''OPTS'', ''USER'', ''PASS'', ''QUIT'']"
    by simp
  have e: "trace example_world = []"
    by (simp add: example_world_def)
  from unauthenticated_command_530 [OF a p m n, of example_env example_world] a p m n e
  show ?thesis by simp
qed

text \<open>
  C8. In an authenticated session, \<open>STOR\<close> on a path where a file exists adds the reply
  \<open>553 Requested action not taken. <arg> name already taken.\<close> to the trace and does
  nothing more: no data connection is attempted, the files and the working directory
  are as before, and \<open>client_info\<close>, the login, the current path and \<open>connected\<close> keep
  their values. Only the scratch variable \<open>file_path\<close> is reset.
\<close>
theorem stor_existing_553:
  assumes "authenticated s"
      and "parse_message (strip text) = Inr (''STOR'', arg)"
      and "isfile env w (resolve_path (BASE_PATH env) (current_path s) arg)"
  shows "loop_body env s w (Recv text)
           = Returned (s\<lparr>file_path := Some []\<rparr>)
               (w\<lparr>trace := trace w @
                  [Reply (''553 Requested action not taken. '' @ arg @ '' name already taken.'')]\<rparr>)"
proof -
  have "strip text \<noteq> []"
    using assms(2) by (auto simp: parse_message_Nil)
  then show ?thesis
    using assms
    by (simp add: loop_body_def dispatch_def SUPPORTED_COMMANDS_def cmd_stor_def
        send_message_def)
qed

theorem stor_existing_553_witness:
  "authenticated logged_in
   \<and> parse_message (strip ''STOR existing.txt'') = Inr (''STOR'', ''existing.txt'')
   \<and> isfile example_env example_world
        (resolve_path (BASE_PATH example_env) (current_path logged_in) ''existing.txt'')
   \<and> loop_body example_env logged_in example_world (Recv ''STOR existing.txt'')
       = Returned (logged_in\<lparr>file_path := Some []\<rparr>)
           (example_world\<lparr>trace :=
              [Reply ''553 Requested action not taken. existing.txt name already taken.'']\<rparr>)"
proof -
  have a: "authenticated logged_in"
    by (simp add: example_defs)
  have p: "parse_message (strip ''STOR existing.txt'') = Inr (''STOR'', ''existing.txt'')"
    by (simp add: parse_defs)
  have f: "isfile example_env example_world
             (resolve_path (BASE_PATH example_env) (current_path logged_in) ''existing.txt'')"
    by (simp add: isfile_def example_defs path_defs)
  have e: "trace example_world = []"
    by (simp add: example_world_def)
  from stor_existing_553 [OF a p f] a p f e show ?thesis by simp
qed

lemma connect_to_client_None: "connect_to_client env None w = Raised TypeError w"
  by (simp add: connect_to_client_def)

text \<open>
  C10. In an authenticated session whose \<open>client_info\<close> is absent, \<open>RETR\<close> of an
  existing file and \<open>STOR\<close> on a path where no file exists pass the file check and call
  \<open>connect_to_client\<close> on the absent value. The call raises \<open>TypeError\<close>, which nothing
  catches: no reply is sent (neither 425 nor 150 nor 250), nothing is transferred and the
  world is as before.
\<close>
theorem transfer_without_port_raises:
  assumes "authenticated s"
      and "client_info s = None"
      and "parse_message (strip text) = Inr (command, arg)"
      and "command = ''RETR'' \<and> isfile env w (resolve_path (BASE_PATH env) (current_path s) arg)
           \<or> command = ''STOR'' \<and> \<not> isfile env w (resolve_path (BASE_PATH env) (current_path s) arg)"
  shows "connect_to_client env (client_info s) w = Raised TypeError w
         \<and> loop_body env s w (Recv text) = Raised TypeError w"
proof -
  have "strip text \<noteq> []"
    using assms(3) by (auto simp: parse_message_Nil)
  then show ?thesis
    using assms
    by (auto simp: loop_body_def dispatch_def SUPPORTED_COMMANDS_def cmd_stor_def cmd_retr_def
        connect_to_client_None)
qed

theorem transfer_without_port_raises_witness:
  "authenticated logged_in
   \<and> client_info logged_in = None
   \<and> parse_message (strip ''RETR existing.txt'') = Inr (''RETR'', ''existing.txt'')
   \<and> isfile example_env example_world
        (resolve_path (BASE_PATH example_env) (current_path logged_in) ''existing.txt'')
   \<and> connect_to_client example_env (client_info logged_in) example_world
        = Raised TypeError example_world
   \<and> loop_body example_env logged_in example_world (Recv ''RETR existing.txt'')
        = Raised TypeError example_world"
proof -
  have a: "authenticated logged_in"
    by (simp add: example_defs)
  have c: "client_info logged_in = None"
    by (simp add: example_defs)
  have p: "parse_message (strip ''RETR existing.txt'') = Inr (''RETR'', ''existing.txt'')"
    by (simp add: parse_defs)
  have f: "isfile example_env example_world
             (resolve_path (BASE_PATH example_env) (current_path logged_in) ''existing.txt'')"
    by (simp add: isfile_def example_defs path_defs)
  from transfer_without_port_raises [OF a c p disjI1 [OF conjI [OF refl f]]] a c p f
  show ?thesis by simp
qed

text \<open>
  C7. In any session, the line \<open>OPTS FOO\<close> is answered by two replies: 504, then
  \<open>200 OK\<close>. It is no transfer command.
\<close>
theorem opts_other_argument_two_replies:
  "loop_body env s w (Recv ''OPTS FOO'')
     = Returned s (w\<lparr>trace := trace w @ [Reply ''504 Command not implemented for that argument.'',
                                          Reply ''200 OK'']\<rparr>)"
  by (simp add: loop_body_def dispatch_def parse_defs SUPPORTED_COMMANDS_def cmd_opts_def
      send_message_def startswith_def)

text \<open>
  C1. The containment test of line 243 asks whether \<open>BASE_PATH\<close> occurs anywhere in the
  new working directory, not whether the directory is the root or lies below it. In the
  example installation the client logs in and sends \<open>CWD ../ftp2\<close>: the directory
  \<open>/srv/ftp2\<close> is outside the root \<open>/srv/ftp\<close>, yet the session is not reset. The
  server answers \<open>250 Changed directory: 2\<close>, the working directory is \<open>/srv/ftp2\<close> and
  the current path is \<open>2\<close>.
\<close>
theorem cwd_sibling_not_reset:
  "handle_connected_client example_env example_world
     [Recv ''USER guest'', Recv ''PASS guest'', Recv ''CWD ../ftp2'']
     = Returned (logged_in\<lparr>current_path := ''2''\<rparr>)
         (example_world\<lparr>cwd := ''/srv/ftp2'',
            trace := [Reply ''220 Welcome to myFTPserver!'',
                      Reply ''331 Username OK, need password.'',
                      Reply ''230 Login successful.'',
                      Reply ''250 Changed directory: 2'']\<rparr>)
   \<and> \<not> within_root (BASE_PATH example_env) ''/srv/ftp2''"
  by (simp add: handle_connected_client_def loop_body_def dispatch_def parse_defs
      SUPPORTED_COMMANDS_def cmd_defs example_defs path_defs within_root_def Let_def)

lemma connect_to_client_refused:
  assumes "peer_address ci = Inr (host, port)"
      and "CHR 0x00 \<notin> set host" and "list_all is_ascii host \<or> \<not> idna_fails env host"
      and "0 \<le> port" and "port \<le> 65535"
      and "resolve_error env host = None"
      and "connect_result env host port = Some ConnectionRefusedError"
  shows "connect_to_client env (Some ci) w
           = Returned None (w\<lparr>trace := trace w @ [DataConnect host port]\<rparr>)"
  using assms by (auto simp: connect_to_client_def socket_connect_def Let_def)

text \<open>
  C6. \<open>connect_to_client\<close> catches \<open>ConnectionRefusedError\<close> only. For the descriptor
  \<open>(10,0,0,9,200,1)\<close> it connects to host \<open>10.0.0.9\<close> at port 200 * 256 + 1 = 51201; in
  the example installation there is no route to that host, \<open>connect\<close> raises an
  \<open>OSError\<close> that is not a refusal, and the error leaves \<open>connect_to_client\<close> instead
  of the value \<open>None\<close>.
\<close>
theorem connect_no_route_raises:
  "connect_to_client example_env (Some [''10'', ''0'', ''0'', ''9'', ''200'', ''1'']) example_world
     = Raised (OSError NoRouteToHost)
         (example_world\<lparr>trace := [DataConnect ''10.0.0.9'' 51201]\<rparr>)"
  by (simp add: connect_defs example_defs)

text \<open>
  C3. Line 229 strips one leading separator from the argument so that \<open>os.path.join\<close>
  roots it at \<open>BASE_PATH\<close>. The argument \<open>//etc/passwd\<close> begins with the separator, yet
  what remains after the strip begins with it again, \<open>os.path.join\<close> drops the root, and
  the path resolved is \<open>/etc/passwd\<close>: it is not rooted at the server root.
\<close>
theorem resolve_path_double_slash_escapes:
  "resolve_path ''/srv/ftp'' ''/pub'' ''//etc/passwd'' = ''/etc/passwd''
   \<and> \<not> startswith (resolve_path ''/srv/ftp'' ''/pub'' ''//etc/passwd'') ''/srv/ftp''"
  by (simp add: path_defs)

lemma last_reply_code_send [simp]:
  "last_reply_code (send_message m w) = take 3 m"
  by (simp add: last_reply_code_def send_message_def)

lemma retr_pending_address:
  assumes "cmd_retr env arg s w = Returned s' w'"
  shows "(last_reply_code w' = ''250'' \<longrightarrow> client_info s' = None)
       \<and> (last_reply_code w' \<in> set [''550'', ''553'', ''425''] \<longrightarrow> client_info s' = client_info s)"
  using assms
  by (auto simp: cmd_retr_def Let_def reply_425_def split: if_splits outcome.splits option.splits)

lemma stor_pending_address:
  assumes "cmd_stor env arg s w = Returned s' w'"
  shows "last_reply_code w' \<in> set [''550'', ''553'', ''425''] \<longrightarrow> client_info s' = client_info s"
  using assms
  by (auto simp: cmd_stor_def Let_def reply_425_def split: if_splits outcome.splits option.splits)

text \<open>
  C5, as amended. In an authenticated session, when the handling of \<open>RETR\<close> or \<open>STOR\<close>
  returns: after a \<open>RETR\<close> that ends with the 250 reply, \<open>client_info\<close> is absent; after
  a transfer command that ends with a 550, 553 or 425 reply, \<open>client_info\<close> is what it
  was before the command.
\<close>
theorem transfer_pending_address:
  assumes "authenticated s"
      and "parse_message (strip text) = Inr (command, arg)"
      and "command = ''RETR'' \<or> command = ''STOR''"
      and "loop_body env s w (Recv text) = Returned s' w'"
  shows "(command = ''RETR'' \<and> last_reply_code w' = ''250'' \<longrightarrow> client_info s' = None)
       \<and> (last_reply_code w' \<in> set [''550'', ''553'', ''425''] \<longrightarrow> client_info s' = client_info s)"
proof -
  have ne: "strip text \<noteq> []"
    using assms(2) by (auto simp: parse_message_Nil)
  from assms(3) show ?thesis
  proof
    assume c: "command = ''RETR''"
    with ne assms have "cmd_retr env arg s w = Returned s' w'"
      by (simp add: loop_body_def dispatch_def SUPPORTED_COMMANDS_def)
    from retr_pending_address [OF this] show ?thesis by simp
  next
    assume c: "command = ''STOR''"
    with ne assms have "cmd_stor env arg s w = Returned s' w'"
      by (simp add: loop_body_def dispatch_def SUPPORTED_COMMANDS_def)
    from stor_pending_address [OF this] c show ?thesis by simp
  qed
qed

theorem transfer_pending_address_witness:
  "authenticated (after_port ''2'')
   \<and> parse_message (strip ''RETR existing.txt'') = Inr (''RETR'', ''existing.txt'')
   \<and> loop_body example_env (after_port ''2'') example_world (Recv ''RETR existing.txt'')
       = Returned (logged_in\<lparr>file_path := Some []\<rparr>)
           (example_world\<lparr>trace := [DataConnect ''127.0.0.1'' 51202, Reply reply_150,
              DataSent ''data'', DataClosed, Reply ''250 Successfully transferred existing.txt.'']\<rparr>)
   \<and> client_info (logged_in\<lparr>file_path := Some []\<rparr>) = None
   \<and> authenticated (after_port ''0'')
   \<and> parse_message (strip ''STOR new.txt'') = Inr (''STOR'', ''new.txt'')
   \<and> loop_body example_env (after_port ''0'') example_world (Recv ''STOR new.txt'')
       = Returned ((after_port ''0'')\<lparr>file_path := Some ''/srv/ftp/new.txt'', data_socket := None\<rparr>)
           (example_world\<lparr>trace := [DataConnect ''127.0.0.1'' 51200, Reply reply_425]\<rparr>)
   \<and> client_info ((after_port ''0'')\<lparr>file_path := Some ''/srv/ftp/new.txt'', data_socket := None\<rparr>)
       = client_info (after_port ''0'')"
proof -
  have a: "authenticated (after_port ''2'')"
    by (simp add: example_defs after_port_def)
  have p: "parse_message (strip ''RETR existing.txt'') = Inr (''RETR'', ''existing.txt'')"
    by (simp add: parse_defs)
  have r: "loop_body example_env (after_port ''2'') example_world (Recv ''RETR existing.txt'')
       = Returned (logged_in\<lparr>file_path := Some []\<rparr>)
           (example_world\<lparr>trace := [DataConnect ''127.0.0.1'' 51202, Reply reply_150,
              DataSent ''data'', DataClosed, Reply ''250 Successfully transferred existing.txt.'']\<rparr>)"
    by (simp add: all_defs)
  have c: "last_reply_code (example_world\<lparr>trace := [DataConnect ''127.0.0.1'' 51202, Reply reply_150,
              DataSent ''data'', DataClosed, Reply ''250 Successfully transferred existing.txt.'']\<rparr>)
             = ''250''"
    by (simp add: last_reply_code_def)
  from transfer_pending_address [OF a p disjI1 [OF refl] r] c
  have one: "client_info (logged_in\<lparr>file_path := Some []\<rparr>) = None"
    by blast
  have a': "authenticated (after_port ''0'')"
    by (simp add: example_defs after_port_def)
  have p': "parse_message (strip ''STOR new.txt'') = Inr (''STOR'', ''new.txt'')"
    by (simp add: parse_defs)
  have r': "loop_body example_env (after_port ''0'') example_world (Recv ''STOR new.txt'')
       = Returned ((after_port ''0'')\<lparr>file_path := Some ''/srv/ftp/new.txt'', data_socket := None\<rparr>)
           (example_world\<lparr>trace := [DataConnect ''127.0.0.1'' 51200, Reply reply_425]\<rparr>)"
    by (simp add: step_defs parse_defs cmd_stor_def send_message_def isfile_def int_defs
        path_defs example_defs after_port_def)
  have c': "last_reply_code (example_world\<lparr>trace := [DataConnect ''127.0.0.1'' 51200,
              Reply reply_425]\<rparr>) \<in> set [''550'', ''553'', ''425'']"
    by (simp add: last_reply_code_def reply_425_def)
  from transfer_pending_address [OF a' p' disjI2 [OF refl] r'] c'
  have two: "client_info ((after_port ''0'')\<lparr>file_path := Some ''/srv/ftp/new.txt'',
                                               data_socket := None\<rparr>)
               = client_info (after_port ''0'')"
    by blast
  from a p r one a' p' r' two show ?thesis
    by blast
qed

text \<open>
  After \<open>PORT 127,0,0,1,200,2\<close>, a \<open>RETR\<close> of a file that does not exist is answered
  550 and leaves the advertised address in place.
\<close>
theorem retr_missing_keeps_address:
  "loop_body example_env (after_port ''2'') example_world (Recv ''RETR missing.txt'')
     = Returned ((after_port ''2'')\<lparr>file_path := Some []\<rparr>)
         (send_message ''550 missing.txt does not exist in / directory.'' example_world)
   \<and> client_info ((after_port ''2'')\<lparr>file_path := Some []\<rparr>)
       = Some [''127'', ''0'', ''0'', ''1'', ''200'', ''2'']"
  by (simp add: all_defs)

lemma cmd_cwd_connected: "cmd_cwd env arg s w = Returned s' w' \<Longrightarrow> connected s' = connected s"
  by (auto simp: cmd_cwd_def cwd_done_def Let_def split: if_splits sum.splits)

lemma cmd_dele_connected: "cmd_dele env arg s w = Returned s' w' \<Longrightarrow> connected s' = connected s"
  by (auto simp: cmd_dele_def Let_def split: if_splits option.splits)

lemma cmd_retr_connected: "cmd_retr env arg s w = Returned s' w' \<Longrightarrow> connected s' = connected s"
  by (auto simp: cmd_retr_def Let_def split: if_splits option.splits outcome.splits)

lemma cmd_stor_connected: "cmd_stor env arg s w = Returned s' w' \<Longrightarrow> connected s' = connected s"
  by (auto simp: cmd_stor_def Let_def split: if_splits option.splits outcome.splits)

lemma dispatch_connected:
  assumes "connected s" and "dispatch env command arg s w = Returned s' w'"
  shows "connected s' =
           (\<not> (command = ''QUIT'' \<or> command = ''PASS'' \<and> login_fails s arg
                \<or> needs_login command \<and> \<not> authenticated s))"
proof (cases "command \<in> set SUPPORTED_COMMANDS")
  case False
  with assms show ?thesis
    by (auto simp: dispatch_def SUPPORTED_COMMANDS_def needs_login_def)
next
  case True
  then have "command = ''OPTS'' \<or> command = ''USER'' \<or> command = ''PASS''
      \<or> command = ''QUIT'' \<or> command = ''XPWD'' \<or> command = ''CWD'' \<or> command = ''DELE''
      \<or> command = ''PORT'' \<or> command = ''RETR'' \<or> command = ''STOR''"
    by (simp add: SUPPORTED_COMMANDS_def)
  then show ?thesis
  proof (elim disjE)
    assume "command = ''OPTS''"
    with assms show ?thesis
      by (auto simp: dispatch_def SUPPORTED_COMMANDS_def needs_login_def cmd_opts_def)
  next
    assume "command = ''USER''"
    with assms show ?thesis
      by (auto simp: dispatch_def SUPPORTED_COMMANDS_def needs_login_def cmd_user_def)
  next
    assume "command = ''PASS''"
    with assms show ?thesis
      by (auto simp: dispatch_def SUPPORTED_COMMANDS_def needs_login_def cmd_pass_def
          login_fails_def split: if_splits)
  next
    assume "command = ''QUIT''"
    with assms show ?thesis
      by (auto simp: dispatch_def SUPPORTED_COMMANDS_def needs_login_def cmd_quit_def)
  next
    assume "command = ''XPWD''"
    with assms show ?thesis
      by (auto simp: dispatch_def SUPPORTED_COMMANDS_def needs_login_def cmd_xpwd_def
          split: if_splits)
  next
    assume "command = ''CWD''"
    with assms show ?thesis
      by (auto simp: dispatch_def SUPPORTED_COMMANDS_def needs_login_def
          split: if_splits dest: cmd_cwd_connected)
  next
    assume "command = ''DELE''"
    with assms show ?thesis
      by (auto simp: dispatch_def SUPPORTED_COMMANDS_def needs_login_def
          split: if_splits dest: cmd_dele_connected)
  next
    assume "command = ''PORT''"
    with assms show ?thesis
      by (auto simp: dispatch_def SUPPORTED_COMMANDS_def needs_login_def cmd_port_def
          split: if_splits)
  next
    assume "command = ''RETR''"
    with assms show ?thesis
      by (auto simp: dispatch_def SUPPORTED_COMMANDS_def needs_login_def
          split: if_splits dest: cmd_retr_connected)
  next
    assume "command = ''STOR''"
    with assms show ?thesis
      by (auto simp: dispatch_def SUPPORTED_COMMANDS_def needs_login_def
          split: if_splits dest: cmd_stor_connected)
  qed
qed

lemma loop_body_connected:
  assumes "connected s" and "loop_body env s w i = Returned s' w'"
  shows "connected s' = (\<not> end_of_session s i)"
proof (cases i)
  case RecvReset
  with assms show ?thesis
    by (auto simp: loop_body_def end_of_session_def)
next
  case (Recv msg)
  show ?thesis
  proof (cases "strip msg = []")
    case True
    with Recv assms show ?thesis
      by (auto simp: loop_body_def end_of_session_def)
  next
    case False
    show ?thesis
    proof (cases "parse_message (strip msg)")
      case (Inl e)
      with False Recv assms show ?thesis
        by (simp add: loop_body_def)
    next
      case (Inr ca)
      obtain command arg where ca: "ca = (command, arg)"
        by (cases ca)
      with Inr False Recv assms(2) have "dispatch env command arg s w = Returned s' w'"
        by (simp add: loop_body_def)
      from dispatch_connected [OF assms(1) this] Inr ca False Recv show ?thesis
        by (simp add: end_of_session_def)
    qed
  qed
qed

lemma loop_body_cwd_caught:
  assumes "authenticated s"
      and "parse_message (strip msg) = Inr (''CWD'', arg)"
      and "chdir_result env (resolve_path (BASE_PATH env) (current_path s) arg) = Inl e"
      and "e \<in> set [FileNotFoundError, NotADirectoryError]"
  shows "loop_body env s w (Recv msg)
           = Returned s (w\<lparr>trace := trace w @ [Reply (''550 '' @ arg @ '' is not a directory.'')]\<rparr>)"
proof -
  have "strip msg \<noteq> []"
    using assms(2) by (auto simp: parse_message_Nil)
  then show ?thesis
    using assms
    by (auto simp: loop_body_def dispatch_def SUPPORTED_COMMANDS_def cmd_cwd_def send_message_def)
qed

lemma loop_body_refused_caught:
  assumes "authenticated s"
      and "parse_message (strip msg) = Inr (command, arg)"
      and "passes_file_check env s w command arg"
      and "client_info s = Some ci"
      and "peer_address ci = Inr (host, port)"
      and "CHR 0x00 \<notin> set host" and "list_all is_ascii host \<or> \<not> idna_fails env host"
      and "0 \<le> port" and "port \<le> 65535"
      and "resolve_error env host = None"
      and "connect_result env host port = Some ConnectionRefusedError"
  shows "loop_body env s w (Recv msg)
           = Returned (s\<lparr>file_path := Some (resolve_path (BASE_PATH env) (current_path s) arg),
                          data_socket := None\<rparr>)
               (w\<lparr>trace := trace w @
                  [DataConnect host port,
                   Reply (''425 Can'' @ [CHR 0x27] @ ''t open data connection.'')]\<rparr>)"
proof -
  have ne: "strip msg \<noteq> []"
    using assms(2) by (auto simp: parse_message_Nil)
  have c: "connect_to_client env (client_info s) w
             = Returned None (w\<lparr>trace := trace w @ [DataConnect host port]\<rparr>)"
    using assms(4) connect_to_client_refused [OF assms(5-11)] by simp
  from assms(3) consider
      "command = ''RETR''" "isfile env w (resolve_path (BASE_PATH env) (current_path s) arg)"
    | "command = ''STOR''" "\<not> isfile env w (resolve_path (BASE_PATH env) (current_path s) arg)"
    by (auto simp: passes_file_check_def Let_def)
  then show ?thesis
  proof cases
    case 1
    with ne assms(1,2) c show ?thesis
      by (simp add: loop_body_def dispatch_def SUPPORTED_COMMANDS_def cmd_retr_def Let_def
          send_message_def reply_425_def)
  next
    case 2
    with ne assms(1,2) c show ?thesis
      by (simp add: loop_body_def dispatch_def SUPPORTED_COMMANDS_def cmd_stor_def Let_def
          send_message_def reply_425_def)
  qed
qed

text \<open>
  C4, as amended. In a connected session, the failures the loop catches are a reset of
  the control connection on \<open>recv\<close> (the control connection is closed, nothing is
  sent, the session ends), \<open>FileNotFoundError\<close> and \<open>NotADirectoryError\<close> from the
  change of directory (the trace gains the 550 reply, the session is unchanged) and a
  data connection that the client refuses (the trace gains the call of \<open>connect\<close> and
  the 425 reply). And whenever the handling of an input returns, the session has ended
  exactly when the input was a connection reset, a read that is empty once stripped of
  whitespace, \<open>QUIT\<close>, a \<open>PASS\<close> that does not complete the login, or one of \<open>XPWD\<close>,
  \<open>CWD\<close>, \<open>DELE\<close>, \<open>PORT\<close>, \<open>RETR\<close>, \<open>STOR\<close> received before the login.
\<close>
theorem caught_failures_and_session_end:
  assumes "connected s"
  shows "loop_body env s w RecvReset
           = Returned (s\<lparr>connected := False\<rparr>) (w\<lparr>trace := trace w @ [ControlClosed]\<rparr>)
     \<and> (\<forall>msg arg e.
          authenticated s \<and> parse_message (strip msg) = Inr (''CWD'', arg)
          \<and> chdir_result env (resolve_path (BASE_PATH env) (current_path s) arg) = Inl e
          \<and> e \<in> set [FileNotFoundError, NotADirectoryError]
          \<longrightarrow> loop_body env s w (Recv msg)
                = Returned s
                    (w\<lparr>trace := trace w @ [Reply (''550 '' @ arg @ '' is not a directory.'')]\<rparr>))
     \<and> (\<forall>msg command arg ci host port.
          authenticated s \<and> parse_message (strip msg) = Inr (command, arg)
          \<and> passes_file_check env s w command arg
          \<and> client_info s = Some ci \<and> peer_address ci = Inr (host, port)
          \<and> CHR 0x00 \<notin> set host \<and> (list_all is_ascii host \<or> \<not> idna_fails env host)
          \<and> 0 \<le> port \<and> port \<le> 65535
          \<and> resolve_error env host = None
          \<and> connect_result env host port = Some ConnectionRefusedError
          \<longrightarrow> loop_body env s w (Recv msg)
                = Returned (s\<lparr>file_path := Some (resolve_path (BASE_PATH env) (current_path s) arg),
                               data_socket := None\<rparr>)
                    (w\<lparr>trace := trace w @
                       [DataConnect host port,
                        Reply (''425 Can'' @ [CHR 0x27] @ ''t open data connection.'')]\<rparr>))
     \<and> (\<forall>i s' w'. loop_body env s w i = Returned s' w'
          \<longrightarrow> connected s' = (\<not> end_of_session s i))"
proof (intro conjI allI impI)
  show "loop_body env s w RecvReset
          = Returned (s\<lparr>connected := False\<rparr>) (w\<lparr>trace := trace w @ [ControlClosed]\<rparr>)"
    by (simp add: loop_body_def close_cnx_def)
next
  fix msg arg e
  assume "authenticated s \<and> parse_message (strip msg) = Inr (''CWD'', arg)
          \<and> chdir_result env (resolve_path (BASE_PATH env) (current_path s) arg) = Inl e
          \<and> e \<in> set [FileNotFoundError, NotADirectoryError]"
  then show "loop_body env s w (Recv msg)
                = Returned s
                    (w\<lparr>trace := trace w @ [Reply (''550 '' @ arg @ '' is not a directory.'')]\<rparr>)"
    using loop_body_cwd_caught by blast
next
  fix msg command arg ci host port
  assume h: "authenticated s \<and> parse_message (strip msg) = Inr (command, arg)
          \<and> passes_file_check env s w command arg
          \<and> client_info s = Some ci \<and> peer_address ci = Inr (host, port)
          \<and> CHR 0x00 \<notin> set host \<and> (list_all is_ascii host \<or> \<not> idna_fails env host)
          \<and> 0 \<le> port \<and> port \<le> 65535
          \<and> resolve_error env host = None
          \<and> connect_result env host port = Some ConnectionRefusedError"
  show "loop_body env s w (Recv msg)
                = Returned (s\<lparr>file_path := Some (resolve_path (BASE_PATH env) (current_path s) arg),
                               data_socket := None\<rparr>)
                    (w\<lparr>trace := trace w @
                       [DataConnect host port,
                        Reply (''425 Can'' @ [CHR 0x27] @ ''t open data connection.'')]\<rparr>)"
    by (rule loop_body_refused_caught) (use h in blast)+
next
  fix i s' w'
  assume "loop_body env s w i = Returned s' w'"
  from loop_body_connected [OF assms this]
  show "connected s' = (\<not> end_of_session s i)" .
qed

theorem caught_failures_and_session_end_witness:
  "connected (after_port ''0'')
   \<and> loop_body example_env (after_port ''0'') example_world RecvReset
       = Returned ((after_port ''0'')\<lparr>connected := False\<rparr>)
           (example_world\<lparr>trace := [ControlClosed]\<rparr>)
   \<and> loop_body example_env (after_port ''0'') example_world (Recv ''CWD nowhere'')
       = Returned (after_port ''0'')
           (example_world\<lparr>trace := [Reply ''550 nowhere is not a directory.'']\<rparr>)
   \<and> connect_result example_env ''127.0.0.1'' 51200 = Some ConnectionRefusedError
   \<and> loop_body example_env (after_port ''0'') example_world (Recv ''RETR existing.txt'')
       = Returned ((after_port ''0'')\<lparr>file_path := Some ''/srv/ftp/existing.txt'', data_socket := None\<rparr>)
           (example_world\<lparr>trace := [DataConnect ''127.0.0.1'' 51200,
              Reply (''425 Can'' @ [CHR 0x27] @ ''t open data connection.'')]\<rparr>)
   \<and> loop_body example_env (after_port ''0'') example_world (Recv ''QUIT'')
       = Returned ((after_port ''0'')\<lparr>connected := False, authenticated := False\<rparr>)
           (example_world\<lparr>trace := [Reply ''221 Goodbye.'', ControlClosed]\<rparr>)
   \<and> end_of_session (after_port ''0'') (Recv ''QUIT'')"
proof -
  let ?s = "after_port ''0''"
  have c: "connected ?s"
    by (simp add: example_defs after_port_def)
  note T = caught_failures_and_session_end [OF c, of example_env example_world]
  have a: "authenticated ?s"
    by (simp add: example_defs after_port_def)
  have e: "trace example_world = []"
    by (simp add: example_world_def)
  have r1: "loop_body example_env ?s example_world RecvReset
       = Returned (?s\<lparr>connected := False\<rparr>) (example_world\<lparr>trace := [ControlClosed]\<rparr>)"
    using T e by simp
  have "parse_message (strip ''CWD nowhere'') = Inr (''CWD'', ''nowhere'')"
    by (simp add: parse_defs)
  moreover have "chdir_result example_env
      (resolve_path (BASE_PATH example_env) (current_path ?s) ''nowhere'') = Inl FileNotFoundError"
    by (simp add: example_defs after_port_def path_defs)
  moreover have "FileNotFoundError \<in> set [FileNotFoundError, NotADirectoryError]"
    by simp
  ultimately have "loop_body example_env ?s example_world (Recv ''CWD nowhere'')
       = Returned ?s (example_world\<lparr>trace := trace example_world @
                        [Reply (''550 '' @ ''nowhere'' @ '' is not a directory.'')]\<rparr>)"
    using T a by (elim conjE) blast
  then have r2: "loop_body example_env ?s example_world (Recv ''CWD nowhere'')
       = Returned ?s (example_world\<lparr>trace := [Reply ''550 nowhere is not a directory.'']\<rparr>)"
    using e by simp
  have cr: "connect_result example_env ''127.0.0.1'' 51200 = Some ConnectionRefusedError"
    by (simp add: example_defs)
  have "parse_message (strip ''RETR existing.txt'') = Inr (''RETR'', ''existing.txt'')"
    by (simp add: parse_defs)
  moreover have "passes_file_check example_env ?s example_world ''RETR'' ''existing.txt''"
    by (simp add: passes_file_check_def isfile_def example_defs after_port_def path_defs)
  moreover have "client_info ?s = Some [''127'', ''0'', ''0'', ''1'', ''200'', ''0'']"
    by (simp add: example_defs after_port_def)
  moreover have "peer_address [''127'', ''0'', ''0'', ''1'', ''200'', ''0''] = Inr (''127.0.0.1'', 51200)"
    by (simp add: peer_address_def int_defs)
  moreover have "CHR 0x00 \<notin> set ''127.0.0.1''"
    by simp
  moreover have "list_all is_ascii ''127.0.0.1'' \<or> \<not> idna_fails example_env ''127.0.0.1''"
    by (simp add: is_ascii_def)
  moreover have "(0::int) \<le> 51200" and "(51200::int) \<le> 65535"
    by simp_all
  moreover have "resolve_error example_env ''127.0.0.1'' = None"
    by (simp add: example_defs)
  ultimately have "loop_body example_env ?s example_world (Recv ''RETR existing.txt'')
       = Returned (?s\<lparr>file_path := Some (resolve_path (BASE_PATH example_env) (current_path ?s)
                                             ''existing.txt''),
                      data_socket := None\<rparr>)
           (example_world\<lparr>trace := trace example_world @
              [DataConnect ''127.0.0.1'' 51200,
               Reply (''425 Can'' @ [CHR 0x27] @ ''t open data connection.'')]\<rparr>)"
    using T a cr by (elim conjE) blast
  moreover have "resolve_path (BASE_PATH example_env) (current_path ?s) ''existing.txt''
              = ''/srv/ftp/existing.txt''"
    by (simp add: example_defs after_port_def path_defs)
  ultimately have r3: "loop_body example_env ?s example_world (Recv ''RETR existing.txt'')
       = Returned (?s\<lparr>file_path := Some ''/srv/ftp/existing.txt'', data_socket := None\<rparr>)
           (example_world\<lparr>trace := [DataConnect ''127.0.0.1'' 51200,
              Reply (''425 Can'' @ [CHR 0x27] @ ''t open data connection.'')]\<rparr>)"
    using e by simp
  have r4: "loop_body example_env ?s example_world (Recv ''QUIT'')
       = Returned (?s\<lparr>connected := False, authenticated := False\<rparr>)
           (example_world\<lparr>trace := [Reply ''221 Goodbye.'', ControlClosed]\<rparr>)"
    using e by (simp add: loop_body_def dispatch_def SUPPORTED_COMMANDS_def parse_defs
        cmd_quit_def send_message_def close_cnx_def)
  with T have "connected (?s\<lparr>connected := False, authenticated := False\<rparr>)
                 = (\<not> end_of_session ?s (Recv ''QUIT''))"
    by (elim conjE) blast
  then have r5: "end_of_session ?s (Recv ''QUIT'')"
    by simp
  from c r1 r2 cr r3 r4 r5 show ?thesis
    by simp
qed

text \<open>
  A new session that receives \<open>XPWD\<close> is closed, although the input is no quit, no
  failed login, no empty read and no connection reset.
\<close>
theorem unauthenticated_xpwd_ends_session:
  "connected new_session
   \<and> loop_body example_env new_session example_world (Recv ''XPWD'')
       = Returned (new_session\<lparr>connected := False\<rparr>)
           (example_world\<lparr>trace := [Reply ''530 Not logged in.'', ControlClosed]\<rparr>)
   \<and> \<not> connected (new_session\<lparr>connected := False\<rparr>)
   \<and> \<not> spec_end_of_session new_session (Recv ''XPWD'')"
  by (simp add: all_defs spec_end_of_session_def login_fails_def)

end
